theory Spec2Isabelle
  imports Complex_Main "HOL-Library.Word" "HOL-Library.Multiset"
begin

section \<open>Numbers, time and errors\<close>

text \<open>
  Go's \<open>float64\<close>. The three special values are kept, because the scoring code compares and
  divides price targets that come straight from the feed, and every comparison with NaN is
  false. A finite value is its exact real value: the rounding of binary64 arithmetic, overflow
  of finite operands and the sign of zero are not modelled (a zero divisor counts as +0).
  Decimal constants of the source (0.40, 0.35, 0.25) stand for their decimal value.
\<close>

datatype float64 = Fin real | PosInf | NegInf | NaN

fun fneg :: "float64 \<Rightarrow> float64" where
  "fneg (Fin a) = Fin (- a)"
| "fneg PosInf = NegInf"
| "fneg NegInf = PosInf"
| "fneg NaN = NaN"

text \<open>\<open>a + b\<close>: the sum of opposite infinities is NaN.\<close>

fun fadd :: "float64 \<Rightarrow> float64 \<Rightarrow> float64" where
  "fadd NaN b = NaN"
| "fadd a NaN = NaN"
| "fadd (Fin a) (Fin b) = Fin (a + b)"
| "fadd (Fin a) b = b"
| "fadd a (Fin b) = a"
| "fadd PosInf PosInf = PosInf"
| "fadd NegInf NegInf = NegInf"
| "fadd PosInf NegInf = NaN"
| "fadd NegInf PosInf = NaN"

definition fsub :: "float64 \<Rightarrow> float64 \<Rightarrow> float64" where
  "fsub a b = fadd a (fneg b)"

text \<open>An infinity with the given sign (\<open>True\<close> for negative).\<close>

definition inf_of :: "bool \<Rightarrow> float64" where
  "inf_of negative = (if negative then NegInf else PosInf)"

fun is_neg :: "float64 \<Rightarrow> bool" where
  "is_neg (Fin a) = (a < 0)"
| "is_neg NegInf = True"
| "is_neg PosInf = False"
| "is_neg NaN = False"

text \<open>\<open>a * b\<close>: infinity times zero is NaN.\<close>

fun fmul :: "float64 \<Rightarrow> float64 \<Rightarrow> float64" where
  "fmul NaN b = NaN"
| "fmul a NaN = NaN"
| "fmul (Fin a) (Fin b) = Fin (a * b)"
| "fmul (Fin a) b = (if a = 0 then NaN else inf_of ((a < 0) \<noteq> is_neg b))"
| "fmul a (Fin b) = (if b = 0 then NaN else inf_of (is_neg a \<noteq> (b < 0)))"
| "fmul a b = inf_of (is_neg a \<noteq> is_neg b)"

text \<open>\<open>a / b\<close>: infinity over infinity and zero over zero are NaN, a finite value over an
  infinity is zero, a non-zero value over zero is an infinity.\<close>

fun fdiv :: "float64 \<Rightarrow> float64 \<Rightarrow> float64" where
  "fdiv NaN b = NaN"
| "fdiv a NaN = NaN"
| "fdiv (Fin a) (Fin b) =
     (if b = 0 then (if a = 0 then NaN else inf_of (a < 0)) else Fin (a / b))"
| "fdiv (Fin a) b = Fin 0"
| "fdiv a (Fin b) = inf_of (is_neg a \<noteq> (b < 0))"
| "fdiv a b = NaN"

text \<open>\<open>a < b\<close>, \<open>a > b\<close> and \<open>a <= b\<close>: false as soon as one side is NaN.\<close>

fun flt :: "float64 \<Rightarrow> float64 \<Rightarrow> bool" where
  "flt NaN b = False"
| "flt a NaN = False"
| "flt (Fin a) (Fin b) = (a < b)"
| "flt PosInf b = False"
| "flt a NegInf = False"
| "flt a b = True"

definition fgt :: "float64 \<Rightarrow> float64 \<Rightarrow> bool" where
  "fgt a b = flt b a"

fun fle :: "float64 \<Rightarrow> float64 \<Rightarrow> bool" where
  "fle NaN b = False"
| "fle a NaN = False"
| "fle a b = (\<not> flt b a)"

text \<open>\<open>math.Round\<close>: the nearest integer, halves away from zero; NaN and the infinities are
  returned as they are.\<close>

definition round_away :: "real \<Rightarrow> int" where
  "round_away x = (if x < 0 then - \<lfloor>- x + 1 / 2\<rfloor> else \<lfloor>x + 1 / 2\<rfloor>)"

fun Round :: "float64 \<Rightarrow> float64" where
  "Round (Fin a) = Fin (of_int (round_away a))"
| "Round a = a"

text \<open>\<open>time.Time\<close> as a number of ticks; the zero \<open>Time\<close> is 0.\<close>

type_synonym Time = nat

text \<open>The sentinel errors of package \<open>stockviewer\<close> and its error structs; a wrapped cause is
  kept as text. \<open>Panic\<close> is a run-time panic, where a model has to name one.\<close>

datatype error =
    ErrStockNotFound
  | ErrInvalidFilter
  | ErrSyncInProgress
  | ErrExternalAPIFailure
  | ErrDatabaseConnection
  | ErrUnauthorized
  | ErrInvalidCredentials
  | StorageError string string
  | ExternalAPIError string string
  | ContextError string
  | Panic string

section \<open>Entities\<close>

record Stock =
  ID :: string
  Ticker :: string
  Company :: string
  Brokerage :: string
  Action :: string
  RatingFrom :: string
  RatingTo :: string
  TargetFrom :: float64
  TargetTo :: float64
  RecommendScore :: float64
  CreatedAt :: Time
  UpdatedAt :: Time

record StockRecommendation =
  Stock :: Stock
  Score :: float64
  Reason :: string
  Rank :: int

section \<open>Ingest-time score (package stocks)\<close>

definition ratingScores :: "(string \<times> float64) list" where
  "ratingScores =
    [(''Buy'', Fin 30), (''Outperform'', Fin 25), (''Overweight'', Fin 20), (''Hold'', Fin 0),
     (''Neutral'', Fin (- 5)), (''Market Perform'', Fin (- 10)), (''Underperform'', Fin (- 20)),
     (''Underweight'', Fin (- 20)), (''Sell'', Fin (- 30)), (''Speculative'', Fin 10)]"

definition actionScores :: "(string \<times> float64) list" where
  "actionScores =
    [(''target raised by'', Fin 15), (''upgraded by'', Fin 20), (''initiated by'', Fin 5),
     (''target lowered by'', Fin (- 15)), (''downgraded by'', Fin (- 20))]"

definition calculateRecommendScore :: "Stock \<Rightarrow> float64" where
  "calculateRecommendScore stock =
    (let score = Fin 50;
         score = (case map_of ratingScores (RatingTo stock) of
                    Some ratingScore \<Rightarrow> fadd score ratingScore
                  | None \<Rightarrow> score);
         score = (case map_of actionScores (Action stock) of
                    Some actionScore \<Rightarrow> fadd score actionScore
                  | None \<Rightarrow> score);
         score = (if fgt (TargetFrom stock) (Fin 0) \<and> fgt (TargetTo stock) (Fin 0)
                  then (let priceChange =
                              fmul (fdiv (fsub (TargetTo stock) (TargetFrom stock))
                                         (TargetFrom stock)) (Fin 100)
                        in fadd score (fmul priceChange (Fin (1 / 2))))
                  else score);
         score = (if fgt score (Fin 100) then Fin 100 else score);
         score = (if flt score (Fin 0) then Fin 0 else score)
     in fdiv (Round (fmul score (Fin 100))) (Fin 100))"

section \<open>Recommendation-time score (package recommendation)\<close>

definition calculateRatingScore :: "string \<Rightarrow> float64" where
  "calculateRatingScore rating =
    (let scores =
       [(''Buy'', Fin 100), (''Strong Buy'', Fin 100), (''Outperform'', Fin 80),
        (''Overweight'', Fin 70), (''Accumulate'', Fin 60), (''Hold'', Fin 40),
        (''Neutral'', Fin 35), (''Market Perform'', Fin 30), (''Equal Weight'', Fin 30),
        (''Underperform'', Fin 15), (''Underweight'', Fin 15), (''Reduce'', Fin 10),
        (''Sell'', Fin 0), (''Speculative'', Fin 50)]
     in case map_of scores rating of Some score \<Rightarrow> score | None \<Rightarrow> Fin 40)"

definition calculateActionScore :: "string \<Rightarrow> float64" where
  "calculateActionScore action =
    (let scores =
       [(''target raised by'', Fin 100), (''upgraded by'', Fin 100), (''initiated by'', Fin 60),
        (''reiterated by'', Fin 50), (''target lowered by'', Fin 0), (''downgraded by'', Fin 0)]
     in case map_of scores action of Some score \<Rightarrow> score | None \<Rightarrow> Fin 50)"

definition calculatePriceTargetScore :: "float64 \<Rightarrow> float64 \<Rightarrow> float64" where
  "calculatePriceTargetScore from to =
    (if fle from (Fin 0) \<or> fle to (Fin 0) then Fin 50
     else (let percentChange = fmul (fdiv (fsub to from) from) (Fin 100)
           in if fgt percentChange (Fin 50) then Fin 100
              else if fgt percentChange (Fin 20) then Fin 80
              else if fgt percentChange (Fin 10) then Fin 70
              else if fgt percentChange (Fin 0) then Fin 60
              else if fgt percentChange (Fin (- 10)) then Fin 40
              else if fgt percentChange (Fin (- 20)) then Fin 20
              else Fin 0))"

definition CalculateScore :: "Stock \<Rightarrow> float64" where
  "CalculateScore stock =
    (let score = Fin 0;
         ratingWeight = Fin (40 / 100);
         actionWeight = Fin (35 / 100);
         priceTargetWeight = Fin (25 / 100);
         ratingScore = calculateRatingScore (RatingTo stock);
         score = fadd score (fmul ratingScore ratingWeight);
         actionScore = calculateActionScore (Action stock);
         score = fadd score (fmul actionScore actionWeight);
         priceTargetScore = calculatePriceTargetScore (TargetFrom stock) (TargetTo stock);
         score = fadd score (fmul priceTargetScore priceTargetWeight);
         normalizedScore = fdiv (fadd score (Fin 100)) (Fin 2)
     in fdiv (Round (fmul normalizedScore (Fin 100))) (Fin 100))"

definition generateReason :: "Stock \<Rightarrow> string" where
  "generateReason stock =
    (let reasons = [];
         reasons =
           (if RatingTo stock = ''Buy'' \<or> RatingTo stock = ''Strong Buy''
              then reasons @ [''Strong buy recommendation from analyst'']
            else if RatingTo stock = ''Outperform'' \<or> RatingTo stock = ''Overweight''
              then reasons @ [''Expected to outperform the market'']
            else if RatingTo stock = ''Hold'' \<or> RatingTo stock = ''Neutral''
              then reasons @ [''Stable performance expected'']
            else if RatingTo stock = ''Sell'' \<or> RatingTo stock = ''Underperform''
              then reasons @ [''Caution advised - underperformance expected'']
            else reasons);
         reasons =
           (if Action stock = ''target raised by''
              then reasons @ [''Price target recently increased'']
            else if Action stock = ''upgraded by''
              then reasons @ [''Recently upgraded by analyst'']
            else if Action stock = ''target lowered by''
              then reasons @ [''Price target recently decreased'']
            else if Action stock = ''downgraded by''
              then reasons @ [''Recently downgraded by analyst'']
            else reasons);
         reasons =
           (if fgt (TargetFrom stock) (Fin 0) \<and> fgt (TargetTo stock) (Fin 0)
            then (let change = fmul (fdiv (fsub (TargetTo stock) (TargetFrom stock))
                                          (TargetFrom stock)) (Fin 100)
                  in if fgt change (Fin 10)
                       then reasons @ [''Significant upside potential in price target'']
                     else if flt change (Fin (- 10))
                       then reasons @ [''Notable downside risk in price target'']
                     else reasons)
            else reasons)
     in case reasons of
          [] \<Rightarrow> ''Based on current market analysis''
        | first # others \<Rightarrow> foldl (\<lambda>result r. result @ ''. '' @ r) first (take 2 others))"

text \<open>The loop that writes \<open>Rank = i + 1\<close> into the element at index \<open>i\<close>.\<close>

fun assign_ranks :: "nat \<Rightarrow> StockRecommendation list \<Rightarrow> StockRecommendation list" where
  "assign_ranks i [] = []"
| "assign_ranks i (rec # recs) = rec\<lparr>Rank := int i + 1\<rparr> # assign_ranks (Suc i) recs"

text \<open>
  \<open>GetTopRecommendations\<close>. The repository is reached through \<open>GetTopRecommended\<close>, the method
  the service calls; \<open>sort_Slice\<close> is Go's \<open>sort.Slice\<close>, given the \<open>less\<close> closure of the
  source. It is a parameter: \<open>sort.Slice\<close> is not stable and the order it leaves between
  equal scores is not fixed by its documentation.
\<close>

definition GetTopRecommendations ::
  "(int \<Rightarrow> error + Stock list) \<Rightarrow>
   ((StockRecommendation \<Rightarrow> StockRecommendation \<Rightarrow> bool) \<Rightarrow>
      StockRecommendation list \<Rightarrow> StockRecommendation list) \<Rightarrow>
   int \<Rightarrow> error + StockRecommendation list" where
  "GetTopRecommendations GetTopRecommended sort_Slice limit0 =
    (let limit = (if limit0 < 1 \<or> limit0 > 100 then 10 else limit0)
     in case GetTopRecommended (limit * 2) of
          Inl err \<Rightarrow> Inl err
        | Inr stocks \<Rightarrow>
            (let recommendations =
                   map (\<lambda>stock. \<lparr>Stock = stock, Score = CalculateScore stock,
                                 Reason = generateReason stock, Rank = 0\<rparr>) stocks;
                 recommendations =
                   sort_Slice (\<lambda>ri rj. fgt (Score ri) (Score rj)) recommendations;
                 recommendations =
                   (if int (length recommendations) > limit
                    then take (nat limit) recommendations else recommendations)
             in Inr (assign_ranks 0 recommendations)))"

section \<open>Synchronization (package stocks)\<close>

record StockOrError =
  soe_Stock :: Stock
  soe_Error :: "error option"

record SyncStatus =
  LastSync :: Time
  TotalRecords :: int
  NewRecords :: int
  UpdatedRecords :: int
  Status :: string

text \<open>The three \<open>log.Printf\<close> calls of \<open>SyncStocks\<close>, by their message.\<close>

datatype log_line =
    Error_fetching_stock error
  | Error_saving_batch error
  | Error_saving_final_batch error

text \<open>
  What a run of \<open>SyncStocks\<close> reads and writes: the fields of \<open>Service\<close> (\<open>storage\<close> is the
  state of the repository behind the interface, of any type), the number of \<open>time.Now()\<close>
  calls made so far, the lines logged, and the batches handed to \<open>SaveBatch\<close>, in order.
  The counters are Go \<open>int\<close>s; they count received records and are modelled unbounded.
\<close>

record 'r Service =
  storage :: 'r
  syncInProg :: bool
  lastSync :: Time
  ticks :: nat
  logged :: "log_line list"
  saved :: "Stock list list"

text \<open>\<open>time.Now()\<close>: the clock \<open>clk\<close> gives the time of the n-th reading.\<close>

definition Now :: "(nat \<Rightarrow> Time) \<Rightarrow> 'r Service \<Rightarrow> Time \<times> 'r Service" where
  "Now clk s = (clk (ticks s), s\<lparr>ticks := Suc (ticks s)\<rparr>)"

text \<open>\<open>s.storage.SaveBatch(ctx, batch)\<close> followed by the log line of a failure.\<close>

definition save_batch ::
  "('r \<Rightarrow> Stock list \<Rightarrow> error option \<times> 'r) \<Rightarrow> (error \<Rightarrow> log_line) \<Rightarrow>
   Stock list \<Rightarrow> 'r Service \<Rightarrow> 'r Service" where
  "save_batch SaveBatch line batch s =
    (case SaveBatch (storage s) batch of
       (err, db) \<Rightarrow>
         (let s = s\<lparr>storage := db, saved := saved s @ [batch]\<rparr>
          in case err of
               Some e \<Rightarrow> s\<lparr>logged := logged s @ [line e]\<rparr>
             | None \<Rightarrow> s))"

text \<open>
  One iteration of \<open>for stockOrErr := range stocksChan\<close>, on the loop variables
  \<open>batch\<close>, \<open>totalRecords\<close>, \<open>newRecords\<close> and the service. \<open>GetByID\<close> answers \<open>Inr\<close> the stored
  record, \<open>Inl ErrStockNotFound\<close>, or \<open>Inl\<close> another error (a nil record with a nil error,
  which the source would dereference, is not an answer of this type).
\<close>

definition sync_record ::
  "('r \<Rightarrow> string \<Rightarrow> error + Stock) \<Rightarrow> ('r \<Rightarrow> Stock list \<Rightarrow> error option \<times> 'r) \<Rightarrow>
   (nat \<Rightarrow> Time) \<Rightarrow> StockOrError \<Rightarrow>
   Stock list \<times> int \<times> int \<times> 'r Service \<Rightarrow> Stock list \<times> int \<times> int \<times> 'r Service" where
  "sync_record GetByID SaveBatch clk stockOrErr vars =
    (case vars of (batch, totalRecords, newRecords, s) \<Rightarrow>
      (case soe_Error stockOrErr of
         Some e \<Rightarrow> (batch, totalRecords, newRecords,
                    s\<lparr>logged := logged s @ [Error_fetching_stock e]\<rparr>)
       | None \<Rightarrow>
          (let stock = soe_Stock stockOrErr;
               stock = stock\<lparr>RecommendScore := calculateRecommendScore stock\<rparr>;
               (now, s) = Now clk s;
               stock = stock\<lparr>UpdatedAt := now\<rparr>;
               found = GetByID (storage s) (ID stock);
               (stock, newRecords, s) =
                 (if found = Inl ErrStockNotFound
                  then (let (now, s) = Now clk s
                        in (stock\<lparr>CreatedAt := now\<rparr>, newRecords + 1, s))
                  else (case found of
                          Inr existing \<Rightarrow>
                            (stock\<lparr>CreatedAt := CreatedAt existing\<rparr>, newRecords, s)
                        | Inl err \<Rightarrow> (stock, newRecords, s)));
               batch = batch @ [stock];
               totalRecords = totalRecords + 1
           in if length batch \<ge> 100
              then ([], totalRecords, newRecords,
                    save_batch SaveBatch Error_saving_batch batch s)
              else (batch, totalRecords, newRecords, s))))"

text \<open>The loop over the channel. The producer closes the channel, so the consumer receives
  a finite sequence; it is the list \<open>stocksChan\<close>.\<close>

fun sync_loop ::
  "('r \<Rightarrow> string \<Rightarrow> error + Stock) \<Rightarrow> ('r \<Rightarrow> Stock list \<Rightarrow> error option \<times> 'r) \<Rightarrow>
   (nat \<Rightarrow> Time) \<Rightarrow> StockOrError list \<Rightarrow>
   Stock list \<times> int \<times> int \<times> 'r Service \<Rightarrow> Stock list \<times> int \<times> int \<times> 'r Service" where
  "sync_loop GetByID SaveBatch clk [] vars = vars"
| "sync_loop GetByID SaveBatch clk (stockOrErr # stocksChan) vars =
     sync_loop GetByID SaveBatch clk stocksChan
       (sync_record GetByID SaveBatch clk stockOrErr vars)"

text \<open>
  \<open>SyncStocks\<close> as one call runs it, from entry to return: the result pair \<open>(status, err)\<close>
  and the service afterwards. \<open>fetched\<close> is what \<open>s.fetcher.FetchStocks(ctx)\<close> answers:
  an error, or the channel's content. The deferred function clears \<open>syncInProg\<close> on both
  returns that follow the guard.
\<close>

definition SyncStocks ::
  "('r \<Rightarrow> string \<Rightarrow> error + Stock) \<Rightarrow> ('r \<Rightarrow> Stock list \<Rightarrow> error option \<times> 'r) \<Rightarrow>
   (nat \<Rightarrow> Time) \<Rightarrow> error + StockOrError list \<Rightarrow> 'r Service \<Rightarrow>
   (SyncStatus option \<times> error option) \<times> 'r Service" where
  "SyncStocks GetByID SaveBatch clk fetched s =
    (if syncInProg s then ((None, Some ErrSyncInProgress), s)
     else
      (let s = s\<lparr>syncInProg := True\<rparr>;
           status = \<lparr>LastSync = 0, TotalRecords = 0, NewRecords = 0, UpdatedRecords = 0,
                     Status = ''in_progress''\<rparr>
       in case fetched of
            Inl err \<Rightarrow>
              ((Some (status\<lparr>Status := ''error''\<rparr>), Some err), s\<lparr>syncInProg := False\<rparr>)
          | Inr stocksChan \<Rightarrow>
              (case sync_loop GetByID SaveBatch clk stocksChan ([], 0, 0, s) of
                 (batch, totalRecords, newRecords, s) \<Rightarrow>
                   (let s = (if length batch > 0
                             then save_batch SaveBatch Error_saving_final_batch batch s
                             else s);
                        (now, s) = Now clk s;
                        s = s\<lparr>lastSync := now\<rparr>;
                        status = status\<lparr>LastSync := lastSync s,
                                        TotalRecords := totalRecords,
                                        NewRecords := newRecords,
                                        UpdatedRecords := totalRecords - newRecords,
                                        Status := ''completed''\<rparr>
                    in ((Some status, None), s\<lparr>syncInProg := False\<rparr>)))))"

section \<open>Listing with pagination\<close>










section \<open>Identity derivation (package karenai)\<close>

text \<open>A decoded JSON value held in an \<open>interface{}\<close> field: a number, a text, an integer,
  or \<open>AnyNil\<close> for nil and every other kind of value.\<close>

datatype any = AnyNil | AnyFloat64 float64 | AnyString string | AnyInt int

record StockItem =
  item_Ticker :: string
  item_Company :: string
  item_Brokerage :: string
  item_Action :: string
  item_RatingFrom :: string
  item_RatingTo :: string
  item_TargetFrom :: any
  item_TargetTo :: any

definition digit_char :: "nat \<Rightarrow> char" where
  "digit_char d = ''0123456789'' ! (d mod 10)"

text \<open>A natural number in decimal, without leading zeros.\<close>

fun decimal :: "nat \<Rightarrow> string" where
  "decimal n = (if n < 10 then [digit_char n] else decimal (n div 10) @ [digit_char (n mod 10)])"

declare decimal.simps [simp del]

text \<open>The nearest integer, halves to the even neighbour.\<close>

definition round_even :: "real \<Rightarrow> int" where
  "round_even x =
    (let f = \<lfloor>x\<rfloor>; d = x - of_int f
     in if d < 1 / 2 then f else if d > 1 / 2 then f + 1 else if even f then f else f + 1)"

text \<open>
  The verb \<open>%.2f\<close> of \<open>fmt.Sprintf\<close>: a minus sign for a negative value, the integer part,
  a point and two digits, the value rounded to the nearest hundredth; \<open>NaN\<close>, \<open>+Inf\<close> and
  \<open>-Inf\<close> for the special values.
\<close>

definition fmt_2f :: "float64 \<Rightarrow> string" where
  "fmt_2f v =
    (case v of
       NaN \<Rightarrow> ''NaN''
     | PosInf \<Rightarrow> ''+Inf''
     | NegInf \<Rightarrow> ''-Inf''
     | Fin x \<Rightarrow>
        (let n = nat (round_even (\<bar>x\<bar> * 100))
         in (if x < 0 then ''-'' else []) @ decimal (n div 100) @ ''.'' @
            [digit_char (n mod 100 div 10), digit_char (n mod 10)]))"

text \<open>The string \<open>data\<close> of \<open>generateStockID\<close>, built by
  \<open>fmt.Sprintf("%s|%s|%s|%s|%s|%s|%.2f|%.2f", ...)\<close>.\<close>

definition generateStockID_data :: "StockItem \<Rightarrow> float64 \<Rightarrow> float64 \<Rightarrow> string" where
  "generateStockID_data item targetFrom targetTo =
     item_Ticker item @ ''|'' @ item_Company item @ ''|'' @ item_Brokerage item @ ''|'' @
     item_Action item @ ''|'' @ item_RatingFrom item @ ''|'' @ item_RatingTo item @ ''|'' @
     fmt_2f targetFrom @ ''|'' @ fmt_2f targetTo"

text \<open>\<open>hex.EncodeToString\<close>: two lower-case hexadecimal digits for each byte.\<close>

definition hexdigit :: "nat \<Rightarrow> char" where
  "hexdigit d = ''0123456789abcdef'' ! (d mod 16)"

definition EncodeToString :: "8 word list \<Rightarrow> string" where
  "EncodeToString src = concat (map (\<lambda>b. [hexdigit (unat b div 16), hexdigit (unat b)]) src)"

text \<open>
  A value of Go's \<open>[16]byte\<close> is a 128-bit word here, and \<open>hash[:]\<close> its sixteen bytes,
  the first byte the most significant.
\<close>

definition slice16 :: "128 word \<Rightarrow> 8 word list" where
  "slice16 hash = map (\<lambda>i. ucast (drop_bit (8 * (15 - i)) hash)) [0..<16]"

text \<open>
  \<open>generateStockID\<close>. \<open>md5_Sum\<close> stands for \<open>crypto/md5\<close>'s \<open>Sum\<close>, which is code of Go's
  library and not of this repository; all that is used of it is its type, a function from
  byte strings to \<open>[16]byte\<close>.
\<close>

definition generateStockID ::
  "(string \<Rightarrow> 128 word) \<Rightarrow> StockItem \<Rightarrow> float64 \<Rightarrow> float64 \<Rightarrow> string" where
  "generateStockID md5_Sum item targetFrom targetTo =
    (let data = generateStockID_data item targetFrom targetTo;
         hash = md5_Sum data
     in EncodeToString (slice16 hash))"

text \<open>
  \<open>parseFloat\<close>. \<open>ParseFloat\<close> stands for \<open>strconv.ParseFloat(val, 64)\<close>: \<open>Some f\<close> when it
  returns \<open>f\<close> with a nil error. An integer is converted as \<open>float64(val)\<close>.
\<close>

definition parseFloat :: "(string \<Rightarrow> float64 option) \<Rightarrow> any \<Rightarrow> float64" where
  "parseFloat ParseFloat v =
    (case v of
       AnyFloat64 val \<Rightarrow> val
     | AnyString val \<Rightarrow> (case ParseFloat val of Some f \<Rightarrow> f | None \<Rightarrow> Fin 0)
     | AnyInt val \<Rightarrow> Fin (real_of_int val)
     | AnyNil \<Rightarrow> Fin 0)"

definition convertToStock ::
  "(string \<Rightarrow> 128 word) \<Rightarrow> (string \<Rightarrow> float64 option) \<Rightarrow> StockItem \<Rightarrow> Stock" where
  "convertToStock md5_Sum ParseFloat item =
    (let targetFrom = parseFloat ParseFloat (item_TargetFrom item);
         targetTo = parseFloat ParseFloat (item_TargetTo item);
         id' = generateStockID md5_Sum item targetFrom targetTo
     in \<lparr>ID = id', Ticker = item_Ticker item, Company = item_Company item,
         Brokerage = item_Brokerage item, Action = item_Action item,
         RatingFrom = item_RatingFrom item, RatingTo = item_RatingTo item,
         TargetFrom = targetFrom, TargetTo = targetTo,
         RecommendScore = Fin 0, CreatedAt = 0, UpdatedAt = 0\<rparr>)"

section \<open>The mock repository and fetcher of the tests (package mocks)\<close>

record MockStocksRepository =
  Stocks :: "Stock list"
  Error :: "error option"
  SaveError :: "error option"

definition NewMockStocksRepository :: MockStocksRepository where
  "NewMockStocksRepository =
    \<lparr>Stocks =
       [\<lparr>ID = ''test-id-1'', Ticker = ''AAPL'', Company = ''Apple Inc.'',
         Brokerage = ''Goldman Sachs'', Action = ''target raised by'', RatingFrom = ''Hold'',
         RatingTo = ''Buy'', TargetFrom = Fin 150, TargetTo = Fin 180,
         RecommendScore = Fin (171 / 2), CreatedAt = 0, UpdatedAt = 0\<rparr>,
        \<lparr>ID = ''test-id-2'', Ticker = ''GOOGL'', Company = ''Alphabet Inc.'',
         Brokerage = ''Morgan Stanley'', Action = ''upgraded by'', RatingFrom = ''Neutral'',
         RatingTo = ''Buy'', TargetFrom = Fin 2800, TargetTo = Fin 3200,
         RecommendScore = Fin 90, CreatedAt = 0, UpdatedAt = 0\<rparr>,
        \<lparr>ID = ''test-id-3'', Ticker = ''MSFT'', Company = ''Microsoft Corporation'',
         Brokerage = ''JP Morgan'', Action = ''target lowered by'', RatingFrom = ''Buy'',
         RatingTo = ''Neutral'', TargetFrom = Fin 350, TargetTo = Fin 320,
         RecommendScore = Fin 45, CreatedAt = 0, UpdatedAt = 0\<rparr>],
     Error = None, SaveError = None\<rparr>"

definition Mock_SaveBatch ::
  "MockStocksRepository \<Rightarrow> Stock list \<Rightarrow> error option \<times> MockStocksRepository" where
  "Mock_SaveBatch m stocks =
    (case SaveError m of
       Some e \<Rightarrow> (Some e, m)
     | None \<Rightarrow> (None, m\<lparr>Stocks := Stocks m @ stocks\<rparr>))"

definition Mock_GetByID :: "MockStocksRepository \<Rightarrow> string \<Rightarrow> error + Stock" where
  "Mock_GetByID m id' =
    (case Error m of
       Some e \<Rightarrow> Inl e
     | None \<Rightarrow>
        (case find (\<lambda>stock. ID stock = id') (Stocks m) of
           Some stock \<Rightarrow> Inr stock
         | None \<Rightarrow> Inl ErrStockNotFound))"


text \<open>\<open>m.Stocks[:limit]\<close> panics on a negative \<open>limit\<close>; no caller modelled here passes one.\<close>

definition Mock_GetTopRecommended :: "MockStocksRepository \<Rightarrow> int \<Rightarrow> error + Stock list" where
  "Mock_GetTopRecommended m limit0 =
    (case Error m of
       Some e \<Rightarrow> Inl e
     | None \<Rightarrow>
        (let limit = (if limit0 > int (length (Stocks m)) then int (length (Stocks m))
                      else limit0)
         in if limit < 0 then Inl (Panic ''slice bounds out of range'')
            else Inr (take (nat limit) (Stocks m))))"

text \<open>The stocks \<open>NewMockStocksFetcher\<close> sends, each without an error.\<close>

definition NewMockStocksFetcher :: "StockOrError list" where
  "NewMockStocksFetcher =
    map (\<lambda>stock. \<lparr>soe_Stock = stock, soe_Error = None\<rparr>)
      [\<lparr>ID = ''mock-1'', Ticker = ''RMTI'', Company = ''Rockwell Medical'',
        Brokerage = ''Analyst Firm'', Action = ''target lowered by'', RatingFrom = [],
        RatingTo = ''Buy'', TargetFrom = Fin 0, TargetTo = Fin 0,
        RecommendScore = Fin 0, CreatedAt = 0, UpdatedAt = 0\<rparr>,
       \<lparr>ID = ''mock-2'', Ticker = ''AKBA'', Company = ''Akebia Therapeutics'',
        Brokerage = ''Analyst Firm'', Action = ''target lowered by'', RatingFrom = [],
        RatingTo = ''Buy'', TargetFrom = Fin 0, TargetTo = Fin 0,
        RecommendScore = Fin 0, CreatedAt = 0, UpdatedAt = 0\<rparr>,
       \<lparr>ID = ''mock-3'', Ticker = ''CECO'', Company = ''CECO Environmental'',
        Brokerage = ''Analyst Firm'', Action = ''target raised by'', RatingFrom = [],
        RatingTo = ''Buy'', TargetFrom = Fin 0, TargetTo = Fin 0,
        RecommendScore = Fin 0, CreatedAt = 0, UpdatedAt = 0\<rparr>]"

text \<open>\<open>stocks.NewService\<close>: a fresh service over a repository state, before any clock
  reading, log line or write.\<close>

definition NewService :: "'r \<Rightarrow> 'r Service" where
  "NewService repo =
    \<lparr>storage = repo, syncInProg = False, lastSync = 0, ticks = 0, logged = [], saved = []\<rparr>"

section \<open>Notions of the specification\<close>










text \<open>The limit \<open>GetTopRecommendations\<close> works with: the requested one when it lies in
  1..100, and 10 otherwise.\<close>

definition spec_effective_limit :: "int \<Rightarrow> int" where
  "spec_effective_limit n = (if 1 \<le> n \<and> n \<le> 100 then n else 10)"

text \<open>The recommendations built from the fetched stocks, before they are sorted.\<close>

definition candidates :: "Stock list \<Rightarrow> StockRecommendation list" where
  "candidates stocks = map (\<lambda>stock. \<lparr>Stock = stock, Score = CalculateScore stock,
                                 Reason = generateReason stock, Rank = 0\<rparr>) stocks"

definition finite_score :: "StockRecommendation \<Rightarrow> bool" where
  "finite_score r = (case Score r of Fin a \<Rightarrow> True | _ \<Rightarrow> False)"

text \<open>
  What \<open>GetTopRecommendations\<close> relies on from \<open>sort.Slice\<close> with its \<open>less\<close> closure
  (greater score first): on a list whose scores are finite numbers, where that closure is
  a strict weak order, the result is a rearrangement of the list in which no element is
  followed by one that \<open>less\<close> puts before it.
\<close>

definition sort_Slice_sorts ::
  "((StockRecommendation \<Rightarrow> StockRecommendation \<Rightarrow> bool) \<Rightarrow>
      StockRecommendation list \<Rightarrow> StockRecommendation list) \<Rightarrow> bool" where
  "sort_Slice_sorts sort_Slice =
    (\<forall>xs. list_all finite_score xs \<longrightarrow>
       mset (sort_Slice (\<lambda>ri rj. fgt (Score ri) (Score rj)) xs) = mset xs
       \<and> sorted_wrt (\<lambda>a b. \<not> fgt (Score b) (Score a))
            (sort_Slice (\<lambda>ri rj. fgt (Score ri) (Score rj)) xs))"

text \<open>An insertion sort, as one function that \<open>sort.Slice\<close> may be.\<close>

fun insert_by :: "('a \<Rightarrow> 'a \<Rightarrow> bool) \<Rightarrow> 'a \<Rightarrow> 'a list \<Rightarrow> 'a list" where
  "insert_by less' x [] = [x]"
| "insert_by less' x (y # ys) = (if less' x y then x # y # ys else y # insert_by less' x ys)"

definition insertion_sort :: "('a \<Rightarrow> 'a \<Rightarrow> bool) \<Rightarrow> 'a list \<Rightarrow> 'a list" where
  "insertion_sort less' xs = foldr (insert_by less') xs []"

text \<open>
  The ingest-time score as the specification words it. The deltas of the two lookup tables
  (an unknown label adds 0):
\<close>

definition spec_rating_delta :: "string \<Rightarrow> real" where
  "spec_rating_delta rating =
    (if rating = ''Buy'' then 30
     else if rating = ''Outperform'' then 25
     else if rating = ''Overweight'' then 20
     else if rating = ''Hold'' then 0
     else if rating = ''Neutral'' then - 5
     else if rating = ''Market Perform'' then - 10
     else if rating = ''Underperform'' \<or> rating = ''Underweight'' then - 20
     else if rating = ''Sell'' then - 30
     else if rating = ''Speculative'' then 10
     else 0)"

definition spec_action_delta :: "string \<Rightarrow> real" where
  "spec_action_delta action =
    (if action = ''target raised by'' then 15
     else if action = ''upgraded by'' then 20
     else if action = ''initiated by'' then 5
     else if action = ''target lowered by'' then - 15
     else if action = ''downgraded by'' then - 20
     else 0)"

text \<open>\<open>spec_percent_change = (target_to - target_from) / target_from * 100\<close>.\<close>

definition spec_percent_change :: "float64 \<Rightarrow> float64 \<Rightarrow> float64" where
  "spec_percent_change target_from target_to =
     fmul (fdiv (fsub target_to target_from) target_from) (Fin 100)"

text \<open>
  Clamping to [0,100] and rounding to two decimal places, on \<open>float64\<close>: an infinity is
  clamped to the bound on its side, and NaN, which no bound compares with, stays NaN.
\<close>

fun spec_clamp_0_100 :: "float64 \<Rightarrow> float64" where
  "spec_clamp_0_100 (Fin a) = Fin (max 0 (min 100 a))"
| "spec_clamp_0_100 PosInf = Fin 100"
| "spec_clamp_0_100 NegInf = Fin 0"
| "spec_clamp_0_100 NaN = NaN"

fun spec_round_2dp :: "float64 \<Rightarrow> float64" where
  "spec_round_2dp (Fin a) = Fin (real_of_int (round_away (a * 100)) / 100)"
| "spec_round_2dp a = a"

text \<open>Base 50, plus the two deltas, plus half the percent change when both targets are
  positive; clamped, then rounded.\<close>

definition spec_ingest_score :: "Stock \<Rightarrow> float64" where
  "spec_ingest_score stock =
     spec_round_2dp (spec_clamp_0_100
       (fadd (Fin (50 + spec_rating_delta (RatingTo stock) + spec_action_delta (Action stock)))
             (if fgt (TargetFrom stock) (Fin 0) \<and> fgt (TargetTo stock) (Fin 0)
              then fmul (Fin (1 / 2)) (spec_percent_change (TargetFrom stock) (TargetTo stock))
              else Fin 0)))"





text \<open>A score within the bounds 0 and 100 (which NaN and the infinities are not).\<close>

definition in_0_100 :: "float64 \<Rightarrow> bool" where
  "in_0_100 x = (case x of Fin a \<Rightarrow> 0 \<le> a \<and> a \<le> 100 | _ \<Rightarrow> False)"

text \<open>The first record of the mock repository, its two price targets given as \<open>"Inf"\<close>.\<close>

definition infinite_targets :: Stock where
  "infinite_targets =
     \<lparr>ID = ''test-id-1'', Ticker = ''AAPL'', Company = ''Apple Inc.'',
      Brokerage = ''Goldman Sachs'', Action = ''target raised by'', RatingFrom = ''Hold'',
      RatingTo = ''Buy'', TargetFrom = PosInf, TargetTo = PosInf,
      RecommendScore = Fin 0, CreatedAt = 0, UpdatedAt = 0\<rparr>"






section \<open>Properties\<close>

subsection \<open>The run summary\<close>

lemma sync_record_counts:
  assumes "sync_record GetByID SaveBatch clk x (b, t, n, s) = (b', t', n', s')"
    and "0 \<le> n" and "n \<le> t"
  shows "0 \<le> n' \<and> n' \<le> t'"
  using assms
  by (auto simp: sync_record_def Let_def Now_def
           split: option.splits if_splits sum.splits prod.splits)

lemma sync_loop_counts:
  "sync_loop GetByID SaveBatch clk xs (b, t, n, s) = (b', t', n', s') \<Longrightarrow>
   0 \<le> n \<Longrightarrow> n \<le> t \<Longrightarrow> 0 \<le> n' \<and> n' \<le> t'"
proof (induction xs arbitrary: b t n s)
  case Nil
  then show ?case by simp
next
  case (Cons x xs)
  obtain b1 t1 n1 s1
    where step: "sync_record GetByID SaveBatch clk x (b, t, n, s) = (b1, t1, n1, s1)"
    by (metis prod_cases4)
  from sync_record_counts[OF step Cons.prems(2,3)] have "0 \<le> n1" and "n1 \<le> t1"
    by auto
  moreover from Cons.prems(1) step
  have "sync_loop GetByID SaveBatch clk xs (b1, t1, n1, s1) = (b', t', n', s')"
    by simp
  ultimately show ?case
    using Cons.IH by blast
qed

text \<open>
  C10. A run of \<open>SyncStocks\<close> that passes the guard and whose \<open>FetchStocks\<close> call succeeds
  (it answers a channel, whatever the channel then carries) returns a status and no error;
  the status is \<open>completed\<close>, its new and updated counts add up to the total, and the new
  count lies between 0 and the total.
\<close>

theorem C10_sync_summary:
  assumes "\<not> syncInProg s"
  shows "\<exists>status s'.
           SyncStocks GetByID SaveBatch clk (Inr stocksChan) s = ((Some status, None), s')
           \<and> Status status = ''completed''
           \<and> NewRecords status + UpdatedRecords status = TotalRecords status
           \<and> 0 \<le> NewRecords status \<and> NewRecords status \<le> TotalRecords status"
proof -
  obtain b t n s1 where run:
    "sync_loop GetByID SaveBatch clk stocksChan ([], 0, 0, s\<lparr>syncInProg := True\<rparr>)
       = (b, t, n, s1)"
    by (metis prod_cases4)
  from sync_loop_counts[OF run] have "0 \<le> n \<and> n \<le> t"
    by simp
  with assms run show ?thesis
    by (simp add: SyncStocks_def Let_def Now_def split: prod.splits)
qed

theorem C10_sync_summary_witness:
  "\<not> syncInProg (NewService NewMockStocksRepository)
   \<and> (\<exists>status s'.
         SyncStocks Mock_GetByID Mock_SaveBatch (\<lambda>n. 1000 + n) (Inr NewMockStocksFetcher)
           (NewService NewMockStocksRepository) = ((Some status, None), s')
         \<and> Status status = ''completed''
         \<and> NewRecords status + UpdatedRecords status = TotalRecords status
         \<and> 0 \<le> NewRecords status \<and> NewRecords status \<le> TotalRecords status)
   \<and> fst (SyncStocks Mock_GetByID Mock_SaveBatch (\<lambda>n. 1000 + n) (Inr NewMockStocksFetcher)
            (NewService NewMockStocksRepository))
       = (Some \<lparr>LastSync = 1006, TotalRecords = 3, NewRecords = 3, UpdatedRecords = 0,
                 Status = ''completed''\<rparr>, None)"
proof -
  have idle: "\<not> syncInProg (NewService NewMockStocksRepository)"
    by (simp add: NewService_def)
  have run: "fst (SyncStocks Mock_GetByID Mock_SaveBatch (\<lambda>n. 1000 + n)
                    (Inr NewMockStocksFetcher) (NewService NewMockStocksRepository))
       = (Some \<lparr>LastSync = 1006, TotalRecords = 3, NewRecords = 3, UpdatedRecords = 0,
                 Status = ''completed''\<rparr>, None)"
    by code_simp
  from idle C10_sync_summary[OF idle] run show ?thesis
    by blast
qed

subsection \<open>Pagination\<close>








subsection \<open>What a run writes\<close>

lemma save_batch_saved [simp]:
  "saved (save_batch SaveBatch line batch s) = saved s @ [batch]"
  by (simp add: save_batch_def Let_def split: prod.splits option.splits)











subsection \<open>A lookup that fails\<close>

lemma sync_record_lookup_error:
  assumes "soe_Error x = None"
    and "GetByID (storage s) (ID (soe_Stock x)) = Inl err" and "err \<noteq> ErrStockNotFound"
    and "sync_record GetByID SaveBatch clk x (b, t, n, s) = (b', t', n', s')"
  shows "concat (saved s') @ b'
           = concat (saved s) @ b @
             [(soe_Stock x)\<lparr>RecommendScore := calculateRecommendScore (soe_Stock x),
                             UpdatedAt := clk (ticks s)\<rparr>]
         \<and> t' = t + 1 \<and> n' = n
         \<and> (length b < 99 \<longrightarrow> logged s' = logged s)"
  using assms
  by (auto simp: sync_record_def Let_def Now_def
           split: option.splits if_splits sum.splits prod.splits)

text \<open>
  C6. The mock repository of the tests with its \<open>Error\<close> field set answers every \<open>GetByID\<close>
  with that error, which is neither nil nor \<open>ErrStockNotFound\<close>. The run over the mock
  fetcher's three records then logs nothing, hands all three to \<open>SaveBatch\<close> (each with
  the \<open>CreatedAt\<close> it was fetched with, the zero time) and counts them as updated.
\<close>

theorem C6_lookup_error_record_written:
  "fst (SyncStocks Mock_GetByID Mock_SaveBatch (\<lambda>n. 1000 + n) (Inr NewMockStocksFetcher)
          (NewService (NewMockStocksRepository
             \<lparr>Error := Some (StorageError ''get_by_id'' ''connection reset'')\<rparr>)))
     = (Some \<lparr>LastSync = 1003, TotalRecords = 3, NewRecords = 0, UpdatedRecords = 3,
               Status = ''completed''\<rparr>, None)
   \<and> logged (snd (SyncStocks Mock_GetByID Mock_SaveBatch (\<lambda>n. 1000 + n)
          (Inr NewMockStocksFetcher)
          (NewService (NewMockStocksRepository
             \<lparr>Error := Some (StorageError ''get_by_id'' ''connection reset'')\<rparr>)))) = []
   \<and> map (\<lambda>w. (ID w, CreatedAt w, UpdatedAt w))
        (concat (saved (snd (SyncStocks Mock_GetByID Mock_SaveBatch (\<lambda>n. 1000 + n)
          (Inr NewMockStocksFetcher)
          (NewService (NewMockStocksRepository
             \<lparr>Error := Some (StorageError ''get_by_id'' ''connection reset'')\<rparr>))))))
      = [(''mock-1'', 0, 1000), (''mock-2'', 0, 1001), (''mock-3'', 0, 1002)]"
  by code_simp

subsection \<open>The recommendation-time score is a finite number\<close>

lemma round_away_bounds:
  "real_of_int a \<le> x \<Longrightarrow> x \<le> real_of_int b \<Longrightarrow> a \<le> round_away x \<and> round_away x \<le> b"
  unfolding round_away_def by (auto; linarith)

lemma calculateRatingScore_range:
  "\<exists>a. calculateRatingScore r = Fin a \<and> 0 \<le> a \<and> a \<le> 100"
  by (simp add: calculateRatingScore_def Let_def)

lemma calculateActionScore_range:
  "\<exists>a. calculateActionScore r = Fin a \<and> 0 \<le> a \<and> a \<le> 100"
  by (simp add: calculateActionScore_def Let_def)

lemma calculatePriceTargetScore_range:
  "\<exists>a. calculatePriceTargetScore f t = Fin a \<and> 0 \<le> a \<and> a \<le> 100"
  by (simp add: calculatePriceTargetScore_def Let_def)

lemma CalculateScore_range:
  "\<exists>a. CalculateScore s = Fin a \<and> 50 \<le> a \<and> a \<le> 100"
proof -
  obtain r where r: "calculateRatingScore (RatingTo s) = Fin r" "0 \<le> r" "r \<le> 100"
    using calculateRatingScore_range by blast
  obtain a where a: "calculateActionScore (Action s) = Fin a" "0 \<le> a" "a \<le> 100"
    using calculateActionScore_range by blast
  obtain p where p: "calculatePriceTargetScore (TargetFrom s) (TargetTo s) = Fin p" "0 \<le> p" "p \<le> 100"
    using calculatePriceTargetScore_range by blast
  define n where "n = ((r * (40/100) + a * (35/100) + p * (25/100)) + 100) / 2"
  have n: "50 \<le> n" "n \<le> 100" using r a p by (simp_all add: n_def)
  have cs: "CalculateScore s = Fin (real_of_int (round_away (n * 100)) / 100)"
    by (simp add: CalculateScore_def Let_def r a p n_def)
  have "real_of_int 5000 \<le> n * 100" "n * 100 \<le> real_of_int 10000" using n by simp_all
  from round_away_bounds[OF this] have "5000 \<le> round_away (n * 100)" "round_away (n * 100) \<le> 10000" by auto
  then have "5000 \<le> real_of_int (round_away (n * 100))" "real_of_int (round_away (n * 100)) \<le> 10000"
    by linarith+
  then have "50 \<le> real_of_int (round_away (n * 100)) / 100" "real_of_int (round_away (n * 100)) / 100 \<le> 100"
    by simp_all
  with cs show ?thesis by blast
qed

lemma map_Score_assign_ranks [simp]: "map Score (assign_ranks i xs) = map Score xs"
  by (induction xs arbitrary: i) simp_all

lemma map_Stock_assign_ranks [simp]: "map Stock (assign_ranks i xs) = map Stock xs"
  by (induction xs arbitrary: i) simp_all

lemma length_assign_ranks [simp]: "length (assign_ranks i xs) = length xs"
  by (induction xs arbitrary: i) simp_all

lemma map_Rank_assign_ranks: "map Rank (assign_ranks i xs) = map int [Suc i..<Suc i + length xs]"
proof (induction xs arbitrary: i)
  case Nil
  then show ?case by simp
next
  case (Cons x xs)
  have "[Suc i..<Suc i + length (x # xs)] = Suc i # [Suc (Suc i)..<Suc (Suc i) + length xs]"
    by (subst upt_rec) simp
  with Cons.IH[of "Suc i"] show ?case by simp
qed

lemma sorted_wrt_Score_assign_ranks:
  "sorted_wrt (\<lambda>a b. P (Score a) (Score b)) (assign_ranks i xs)
     = sorted_wrt (\<lambda>a b. P (Score a) (Score b)) xs"
proof -
  have eq: "sorted_wrt (\<lambda>a b. P (Score a) (Score b)) ys = sorted_wrt P (map Score ys)" for ys
    by (simp add: sorted_wrt_map)
  show ?thesis
    unfolding eq by simp
qed

lemma mset_take_subset: "mset (take n xs) \<subseteq># mset xs"
proof -
  have "mset xs = mset (take n xs) + mset (drop n xs)"
    by (metis append_take_drop_id mset_append)
  then show ?thesis by simp
qed

subsection \<open>Ranking\<close>

lemma CalculateScore_finite_score:
  "finite_score \<lparr>Stock = stock, Score = CalculateScore stock, Reason = reason, Rank = k\<rparr>"
proof -
  obtain a where "CalculateScore stock = Fin a"
    using CalculateScore_range by blast
  then show ?thesis by (simp add: finite_score_def)
qed

lemma candidates_finite: "list_all finite_score (candidates stocks)"
  by (simp add: candidates_def list_all_iff CalculateScore_finite_score)

lemma GetTopRecommendations_eq:
  "GetTopRecommendations GetTopRecommended sort_Slice limit =
    (case GetTopRecommended (2 * spec_effective_limit limit) of
       Inl err \<Rightarrow> Inl err
     | Inr stocks \<Rightarrow>
         Inr (assign_ranks 0 (take (nat (spec_effective_limit limit))
                (sort_Slice (\<lambda>ri rj. fgt (Score ri) (Score rj)) (candidates stocks)))))"
proof -
  have lim: "(if limit < 1 \<or> limit > 100 then 10 else limit) = spec_effective_limit limit"
    by (auto simp: spec_effective_limit_def)
  have cut: "(if int (length xs) > n then take (nat n) xs else xs) = take (nat n) xs"
    for xs :: "StockRecommendation list" and n :: int
    by auto
  show ?thesis
    unfolding GetTopRecommendations_def lim Let_def cut candidates_def
    by (simp add: mult.commute split: sum.splits)
qed

lemma fle_iff_not_fgt:
  "finite_score a \<Longrightarrow> finite_score b \<Longrightarrow> fle (Score b) (Score a) = (\<not> fgt (Score b) (Score a))"
  by (auto simp: finite_score_def fgt_def split: float64.splits)

lemma mset_insert_by [simp]: "mset (insert_by less' x ys) = add_mset x (mset ys)"
  by (induction ys) simp_all

lemma mset_insertion_sort [simp]: "mset (insertion_sort less' xs) = mset xs"
  by (induction xs) (simp_all add: insertion_sort_def)

lemma set_insert_by [simp]: "set (insert_by less' x ys) = insert x (set ys)"
  by (metis mset_insert_by set_mset_add_mset_insert set_mset_mset)

lemma finite_score_order:
  assumes "finite_score a" and "finite_score b" and "finite_score c"
  shows "\<not> fgt (Score a) (Score b) \<or> \<not> fgt (Score b) (Score a)"
    and "\<not> fgt (Score b) (Score a) \<Longrightarrow> \<not> fgt (Score c) (Score b) \<Longrightarrow> \<not> fgt (Score c) (Score a)"
    and "fgt (Score a) (Score b) \<Longrightarrow> \<not> fgt (Score c) (Score b) \<Longrightarrow> \<not> fgt (Score c) (Score a)"
  using assms by (auto simp: finite_score_def fgt_def split: float64.splits)

lemma sorted_insert_by:
  assumes "finite_score x" and "list_all finite_score ys"
    and "sorted_wrt (\<lambda>a b. \<not> fgt (Score b) (Score a)) ys"
  shows "sorted_wrt (\<lambda>a b. \<not> fgt (Score b) (Score a))
           (insert_by (\<lambda>ri rj. fgt (Score ri) (Score rj)) x ys)"
  using assms
proof (induction ys)
  case Nil
  then show ?case by simp
next
  case (Cons y ys)
  show ?case
  proof (cases "fgt (Score x) (Score y)")
    case True
    have "\<not> fgt (Score z) (Score x)" if "z \<in> set (y # ys)" for z
    proof -
      from that Cons.prems(2) have fz: "finite_score z" and fy: "finite_score y"
        by (auto simp: list_all_iff)
      from that Cons.prems(3) have "z = y \<or> \<not> fgt (Score z) (Score y)" by auto
      then show ?thesis
        using finite_score_order(1)[OF Cons.prems(1) fy fz]
          finite_score_order(3)[OF Cons.prems(1) fy fz] True by blast
    qed
    with True Cons.prems(3) show ?thesis by simp
  next
    case False
    from Cons.prems have "sorted_wrt (\<lambda>a b. \<not> fgt (Score b) (Score a))
           (insert_by (\<lambda>ri rj. fgt (Score ri) (Score rj)) x ys)"
      by (intro Cons.IH) simp_all
    with False Cons.prems(3) show ?thesis by auto
  qed
qed

lemma insertion_sort_sorts: "sort_Slice_sorts insertion_sort"
  unfolding sort_Slice_sorts_def
proof (intro allI impI conjI)
  fix xs :: "StockRecommendation list"
  assume "list_all finite_score xs"
  then show "sorted_wrt (\<lambda>a b. \<not> fgt (Score b) (Score a))
          (insertion_sort (\<lambda>ri rj. fgt (Score ri) (Score rj)) xs)"
  proof (induction xs)
    case Nil
    then show ?case by (simp add: insertion_sort_def)
  next
    case (Cons x xs)
    then have "sorted_wrt (\<lambda>a b. \<not> fgt (Score b) (Score a))
          (insertion_sort (\<lambda>ri rj. fgt (Score ri) (Score rj)) xs)" by simp
    moreover have "list_all finite_score (insertion_sort (\<lambda>ri rj. fgt (Score ri) (Score rj)) xs)"
      using Cons.prems by (metis list.pred_inject(2) list_all_iff mset_insertion_sort set_mset_mset)
    ultimately show ?case
      using Cons.prems sorted_insert_by[of x "insertion_sort (\<lambda>ri rj. fgt (Score ri) (Score rj)) xs"]
      by (simp add: insertion_sort_def)
  qed
qed simp

text \<open>
  C7. With \<open>n\<close> the effective limit (the requested limit when it lies in 1..100, else 10),
  \<open>GetTopRecommendations\<close> asks the repository for \<open>2 * n\<close> candidates and fails with the
  repository's error when that fails. Otherwise it returns at most \<open>n\<close> recommendations
  (exactly \<open>n\<close>, or all candidates when there are fewer), each a fetched candidate with its
  freshly computed recommendation-time score, in non-increasing order of that score, with
  ranks 1, 2, ..., up to the length of the result.
\<close>

theorem C7_rank_contract:
  assumes "sort_Slice_sorts sort_Slice"
  shows "case GetTopRecommendations GetTopRecommended sort_Slice limit of
           Inl err \<Rightarrow> GetTopRecommended (2 * spec_effective_limit limit) = Inl err
         | Inr recs \<Rightarrow>
             (\<exists>stocks. GetTopRecommended (2 * spec_effective_limit limit) = Inr stocks
                  \<and> mset (map Stock recs) \<subseteq># mset stocks
                  \<and> length recs = min (nat (spec_effective_limit limit)) (length stocks))
             \<and> int (length recs) \<le> spec_effective_limit limit
             \<and> (\<forall>r \<in> set recs. Score r = CalculateScore (Stock r))
             \<and> sorted_wrt (\<lambda>a b. fle (Score b) (Score a)) recs
             \<and> map Rank recs = map int [1..<Suc (length recs)]"
proof (cases "GetTopRecommended (2 * spec_effective_limit limit)")
  case (Inl err)
  then show ?thesis
    by (simp add: GetTopRecommendations_eq)
next
  case (Inr stocks)
  define n where "n = spec_effective_limit limit"
  define ordered where "ordered = sort_Slice (\<lambda>ri rj. fgt (Score ri) (Score rj)) (candidates stocks)"
  define cut where "cut = take (nat n) ordered"
  have npos: "1 \<le> n" by (simp add: n_def spec_effective_limit_def)
  have perm: "mset ordered = mset (candidates stocks)"
    and srt: "sorted_wrt (\<lambda>a b. \<not> fgt (Score b) (Score a)) ordered"
    using assms candidates_finite[of stocks] unfolding sort_Slice_sorts_def ordered_def by blast+
  have res: "GetTopRecommendations GetTopRecommended sort_Slice limit = Inr (assign_ranks 0 cut)"
    using Inr by (simp add: GetTopRecommendations_eq cut_def ordered_def n_def)
  have len: "length ordered = length stocks"
    using perm by (metis candidates_def length_map size_mset)
  have fin: "list_all finite_score ordered"
    using perm candidates_finite[of stocks] by (metis list_all_iff set_mset_mset)
  have setcut: "set cut \<subseteq> set ordered" by (simp add: cut_def set_take_subset)
  have 1: "mset (map Stock cut) \<subseteq># mset stocks"
  proof -
    have "mset (map Stock cut) \<subseteq># mset (map Stock ordered)"
      unfolding cut_def by (metis mset_take_subset take_map)
    also have "mset (map Stock ordered) = mset (map Stock (candidates stocks))"
      using perm by (metis mset_map)
    also have "map Stock (candidates stocks) = stocks"
      by (simp add: candidates_def comp_def)
    finally show ?thesis .
  qed
  have 2: "length cut = min (nat n) (length stocks)"
    by (simp add: cut_def len min.commute)
  have 3: "\<forall>r \<in> set (assign_ranks 0 cut). Score r = CalculateScore (Stock r)"
  proof -
    have "\<forall>r \<in> set (candidates stocks). Score r = CalculateScore (Stock r)"
      by (auto simp: candidates_def)
    then have "\<forall>r \<in> set cut. Score r = CalculateScore (Stock r)"
      using setcut perm by (metis set_mset_mset subsetD)
    then have "map Score cut = map (\<lambda>r. CalculateScore (Stock r)) cut" by simp
    then have "map Score (assign_ranks 0 cut) = map CalculateScore (map Stock (assign_ranks 0 cut))"
      by (simp add: comp_def)
    then show ?thesis
      by (metis (mono_tags, lifting) list.map_comp map_eq_conv comp_apply)
  qed
  have 4: "sorted_wrt (\<lambda>a b. fle (Score b) (Score a)) (assign_ranks 0 cut)"
  proof -
    have "sorted_wrt (\<lambda>a b. \<not> fgt (Score b) (Score a)) cut"
      unfolding cut_def using srt by (rule sorted_wrt_take)
    moreover have "fle (Score y) (Score x)"
      if "x \<in> set cut" and "y \<in> set cut" and "\<not> fgt (Score y) (Score x)" for x y
    proof -
      from that(1,2) fin setcut have "finite_score x" and "finite_score y"
        by (auto simp: list_all_iff)
      with that(3) show ?thesis
        by (simp add: fle_iff_not_fgt)
    qed
    ultimately have "sorted_wrt (\<lambda>a b. fle (Score b) (Score a)) cut"
      by (rule sorted_wrt_mono_rel[rotated])
    then show ?thesis
      using sorted_wrt_Score_assign_ranks[of "\<lambda>x y. fle y x" 0 cut] by simp
  qed
  have 5: "map Rank (assign_ranks 0 cut) = map int [1..<Suc (length (assign_ranks 0 cut))]"
    using map_Rank_assign_ranks[of 0 cut] by simp
  have 6: "int (length (assign_ranks 0 cut)) \<le> n"
    using 2 npos by simp
  show ?thesis
    using Inr 1 2 3 4 5 6 unfolding res n_def[symmetric] by simp
qed

theorem C7_rank_contract_witness:
  "sort_Slice_sorts insertion_sort
   \<and> (case GetTopRecommendations (Mock_GetTopRecommended NewMockStocksRepository)
              insertion_sort 1 of
         Inl err \<Rightarrow> False
       | Inr recs \<Rightarrow>
           int (length recs) \<le> spec_effective_limit 1
           \<and> sorted_wrt (\<lambda>a b. fle (Score b) (Score a)) recs
           \<and> map Rank recs = map int [1..<Suc (length recs)])
   \<and> map_sum id (map (\<lambda>r. (ID (Stock r), Score r, Rank r)))
        (GetTopRecommendations (Mock_GetTopRecommended NewMockStocksRepository)
           insertion_sort 1000)
      = Inr [(''test-id-2'', Fin (385 / 4), 1), (''test-id-1'', Fin (385 / 4), 2),
             (''test-id-3'', Fin 62, 3)]"
proof -
  note sorts = insertion_sort_sorts
  have one: "case GetTopRecommendations (Mock_GetTopRecommended NewMockStocksRepository)
              insertion_sort 1 of
         Inl err \<Rightarrow> False
       | Inr recs \<Rightarrow>
           int (length recs) \<le> spec_effective_limit 1
           \<and> sorted_wrt (\<lambda>a b. fle (Score b) (Score a)) recs
           \<and> map Rank recs = map int [1..<Suc (length recs)]"
    using C7_rank_contract[OF sorts, of "Mock_GetTopRecommended NewMockStocksRepository" 1]
    by (auto simp: Mock_GetTopRecommended_def NewMockStocksRepository_def spec_effective_limit_def
             split: sum.splits)
  have all: "map_sum id (map (\<lambda>r. (ID (Stock r), Score r, Rank r)))
        (GetTopRecommendations (Mock_GetTopRecommended NewMockStocksRepository)
           insertion_sort 1000)
      = Inr [(''test-id-2'', Fin (385 / 4), 1), (''test-id-1'', Fin (385 / 4), 2),
             (''test-id-3'', Fin 62, 3)]"
    by code_simp
  from sorts one all show ?thesis
    by blast
qed

subsection \<open>The two scores\<close>

lemma fmul_commute: "fmul a b = fmul b a"
  by (cases a; cases b) (auto simp: inf_of_def)

lemma fadd_zero [simp]: "fadd a (Fin 0) = a"
  by (cases a) simp_all

lemma code_clamp:
  "(let score = (if fgt x (Fin 100) then Fin 100 else x)
    in if flt score (Fin 0) then Fin 0 else score) = spec_clamp_0_100 x"
  by (cases x) (auto simp: fgt_def Let_def)

lemma code_round: "fdiv (Round (fmul x (Fin 100))) (Fin 100) = spec_round_2dp x"
  by (cases x) (simp_all add: inf_of_def)

lemma rating_step:
  "(case map_of ratingScores r of Some ratingScore \<Rightarrow> fadd (Fin 50) ratingScore | None \<Rightarrow> Fin 50)
     = Fin (50 + spec_rating_delta r)"
  by (simp add: ratingScores_def spec_rating_delta_def)

lemma action_step:
  "(case map_of actionScores a of Some actionScore \<Rightarrow> fadd (Fin c) actionScore | None \<Rightarrow> Fin c)
     = Fin (c + spec_action_delta a)"
  by (simp add: actionScores_def spec_action_delta_def)

lemma calculateRecommendScore_ingest_score:
  "calculateRecommendScore stock = spec_ingest_score stock"
proof -
  have "calculateRecommendScore stock =
    (let score = (case map_of ratingScores (RatingTo stock) of
                    Some ratingScore \<Rightarrow> fadd (Fin 50) ratingScore | None \<Rightarrow> Fin 50);
         score = (case map_of actionScores (Action stock) of
                    Some actionScore \<Rightarrow> fadd score actionScore | None \<Rightarrow> score);
         score = (if fgt (TargetFrom stock) (Fin 0) \<and> fgt (TargetTo stock) (Fin 0)
                  then fadd score (fmul (spec_percent_change (TargetFrom stock) (TargetTo stock)) (Fin (1 / 2)))
                  else score)
     in spec_round_2dp (spec_clamp_0_100 score))"
    unfolding calculateRecommendScore_def Let_def spec_percent_change_def code_round
    using code_clamp[unfolded Let_def] by simp
  also have "\<dots> = spec_ingest_score stock"
    unfolding rating_step Let_def
    by (simp add: action_step spec_ingest_score_def fmul_commute[of _ "Fin (1 / 2)"])
  finally show ?thesis .
qed







lemma round_2dp_in_range: "in_0_100 x \<Longrightarrow> in_0_100 (spec_round_2dp x)"
proof (cases x)
  case (Fin a)
  assume "in_0_100 x"
  with Fin have "real_of_int 0 \<le> a * 100" "a * 100 \<le> real_of_int 10000"
    by (simp_all add: in_0_100_def)
  from round_away_bounds[OF this]
  have "0 \<le> real_of_int (round_away (a * 100))" "real_of_int (round_away (a * 100)) \<le> 10000"
    by linarith+
  with Fin show ?thesis by (simp add: in_0_100_def)
qed (simp_all add: in_0_100_def)

lemma clamp_in_range: "x \<noteq> NaN \<Longrightarrow> in_0_100 (spec_clamp_0_100 x)"
  by (cases x) (simp_all add: in_0_100_def)

lemma percent_change_NaN:
  assumes "fgt f (Fin 0)" and "fgt t (Fin 0)"
  shows "(fmul (Fin (1 / 2)) (spec_percent_change f t) = NaN) = (f = PosInf)"
  using assms by (cases f; cases t) (auto simp: spec_percent_change_def fgt_def fsub_def inf_of_def)

lemma fadd_Fin_NaN: "(fadd (Fin c) x = NaN) = (x = NaN)"
  by (cases x) simp_all

lemma calculateRecommendScore_range:
  "if TargetFrom stock = PosInf \<and> fgt (TargetTo stock) (Fin 0)
   then calculateRecommendScore stock = NaN
   else in_0_100 (calculateRecommendScore stock)"
proof (cases "fgt (TargetFrom stock) (Fin 0) \<and> fgt (TargetTo stock) (Fin 0)")
  case True
  then have pc: "(fmul (Fin (1 / 2)) (spec_percent_change (TargetFrom stock) (TargetTo stock)) = NaN)
            = (TargetFrom stock = PosInf)"
    using percent_change_NaN by blast
  show ?thesis
  proof (cases "TargetFrom stock = PosInf")
    case inf: True
    with True pc show ?thesis
      by (simp add: calculateRecommendScore_ingest_score spec_ingest_score_def)
  next
    case False
    with True pc have "fadd (Fin (50 + spec_rating_delta (RatingTo stock) + spec_action_delta (Action stock)))
        (fmul (Fin (1 / 2)) (spec_percent_change (TargetFrom stock) (TargetTo stock))) \<noteq> NaN"
      by (simp add: fadd_Fin_NaN)
    from round_2dp_in_range[OF clamp_in_range[OF this]] True False show ?thesis
      by (simp add: calculateRecommendScore_ingest_score spec_ingest_score_def)
  qed
next
  case False
  have "in_0_100 (spec_round_2dp (spec_clamp_0_100 (Fin (50 + spec_rating_delta (RatingTo stock) + spec_action_delta (Action stock)))))"
    by (intro round_2dp_in_range clamp_in_range) simp
  with False show ?thesis
    by (auto simp: calculateRecommendScore_ingest_score spec_ingest_score_def fgt_def)
qed

lemma CalculateScore_in_range: "in_0_100 (CalculateScore stock)"
proof -
  obtain a where "CalculateScore stock = Fin a" and "50 \<le> a" and "a \<le> 100"
    using CalculateScore_range by blast
  then show ?thesis
    by (simp add: in_0_100_def)
qed

text \<open>
  C5. The recommendation-time score always lies in [0,100] (\<open>CalculateScore_in_range\<close>), and
  so does the ingest-time score unless \<open>target_from\<close> is \<open>+Inf\<close> and \<open>target_to\<close> is positive
  (\<open>calculateRecommendScore_range\<close>). For the stock below, whose two targets are \<open>+Inf\<close>,
  the ingest-time score is NaN: the percent change is \<open>(Inf - Inf) / Inf\<close>, and neither
  \<open>score > 100\<close> nor \<open>score < 0\<close> holds of NaN.
\<close>

theorem C5_ingest_score_NaN:
  "calculateRecommendScore infinite_targets = NaN
   \<and> \<not> in_0_100 (calculateRecommendScore infinite_targets)
   \<and> in_0_100 (CalculateScore infinite_targets)"
proof -
  have "calculateRecommendScore infinite_targets = NaN"
    by (simp add: calculateRecommendScore_def infinite_targets_def ratingScores_def
          actionScores_def fgt_def fsub_def Let_def)
  moreover have "\<not> in_0_100 NaN"
    by (simp add: in_0_100_def)
  ultimately show ?thesis
    using CalculateScore_in_range[of infinite_targets] by simp
qed

text \<open>
  The same from the feed: \<open>strconv.ParseFloat\<close> reads the text \<open>Inf\<close> as \<open>+Inf\<close> without an
  error, so an item whose targets are given as that text is converted to a stock whose
  ingest-time score is NaN. A text it rejects gives the target 0.
\<close>

lemma feed_Inf_score_NaN:
  assumes "ParseFloat ''Inf'' = Some PosInf"
  shows "calculateRecommendScore
           (convertToStock md5_Sum ParseFloat
              (item\<lparr>item_TargetFrom := AnyString ''Inf'', item_TargetTo := AnyString ''Inf''\<rparr>))
         = NaN"
  using assms
    calculateRecommendScore_range[of "convertToStock md5_Sum ParseFloat
              (item\<lparr>item_TargetFrom := AnyString ''Inf'', item_TargetTo := AnyString ''Inf''\<rparr>)"]
  by (simp add: convertToStock_def parseFloat_def Let_def fgt_def)

lemma parseFloat_rejected:
  "ParseFloat val = None \<Longrightarrow> parseFloat ParseFloat (AnyString val) = Fin 0"
  by (simp add: parseFloat_def)

text \<open>The two ingest-time scenarios of the specification, and the three cases of the
  repository's \<open>TestCalculateRecommendScore\<close> (no targets given).\<close>

lemma calculateRecommendScore_scenarios:
  "RatingTo s = ''Buy'' \<Longrightarrow> Action s = ''target raised by'' \<Longrightarrow> TargetFrom s = Fin 100 \<Longrightarrow>
   TargetTo s = Fin 150 \<Longrightarrow> calculateRecommendScore s = Fin 100"
  "RatingTo s = ''Sell'' \<Longrightarrow> Action s = ''downgraded by'' \<Longrightarrow> TargetFrom s = Fin 100 \<Longrightarrow>
   TargetTo s = Fin 50 \<Longrightarrow> calculateRecommendScore s = Fin 0"
  "RatingTo s = ''Buy'' \<Longrightarrow> Action s = ''target raised by'' \<Longrightarrow> TargetFrom s = Fin 0 \<Longrightarrow>
   TargetTo s = Fin 0 \<Longrightarrow> calculateRecommendScore s = Fin 95"
  "RatingTo s = ''Sell'' \<Longrightarrow> Action s = ''target lowered by'' \<Longrightarrow> TargetFrom s = Fin 0 \<Longrightarrow>
   TargetTo s = Fin 0 \<Longrightarrow> calculateRecommendScore s = Fin 5"
  "RatingTo s = ''Neutral'' \<Longrightarrow> Action s = ''initiated by'' \<Longrightarrow> TargetFrom s = Fin 0 \<Longrightarrow>
   TargetTo s = Fin 0 \<Longrightarrow> calculateRecommendScore s = Fin 50"
  by (simp_all add: calculateRecommendScore_def ratingScores_def actionScores_def
        fgt_def fsub_def round_away_def Let_def)

text \<open>The three cases of the repository's \<open>TestCalculateScore\<close>, which expects a score in
  70..100, in 0..30 and in 30..60.\<close>

lemma CalculateScore_test_cases:
  "RatingTo s = ''Buy'' \<Longrightarrow> Action s = ''target raised by'' \<Longrightarrow> TargetFrom s = Fin 100 \<Longrightarrow>
   TargetTo s = Fin 150 \<Longrightarrow> CalculateScore s = Fin (195 / 2)"
  "RatingTo s = ''Sell'' \<Longrightarrow> Action s = ''downgraded by'' \<Longrightarrow> TargetFrom s = Fin 100 \<Longrightarrow>
   TargetTo s = Fin 50 \<Longrightarrow> CalculateScore s = Fin 50"
  "RatingTo s = ''Neutral'' \<Longrightarrow> Action s = [] \<Longrightarrow> TargetFrom s = Fin 0 \<Longrightarrow>
   TargetTo s = Fin 0 \<Longrightarrow> CalculateScore s = Fin 72"
  by (simp_all add: CalculateScore_def calculateRatingScore_def calculateActionScore_def
        calculatePriceTargetScore_def fgt_def fsub_def round_away_def Let_def)

subsection \<open>Identity derivation\<close>
















subsection \<open>The in-progress flag, one call at a time\<close>

text \<open>
  What the guard does for a single call: a call that finds the flag set returns
  \<open>ErrSyncInProgress\<close> with no status and changes nothing; a call that finds it clear
  returns with the flag clear again, whether the fetch fails or the run completes. The
  loop never touches the flag, so a call made in any state the loop of another run passes
  through is turned away in the same way. How the two calls are scheduled, and that the
  mutex makes the test and the setting of the flag one step, is outside this model, which
  runs a call from entry to return.
\<close>

lemma SyncStocks_in_progress:
  "syncInProg s \<Longrightarrow>
   SyncStocks GetByID SaveBatch clk fetched s = ((None, Some ErrSyncInProgress), s)"
  by (simp add: SyncStocks_def)

lemma SyncStocks_releases:
  "\<not> syncInProg s \<Longrightarrow> \<not> syncInProg (snd (SyncStocks GetByID SaveBatch clk fetched s))"
  by (simp add: SyncStocks_def Let_def Now_def split: sum.splits prod.splits)

lemma SyncStocks_fetch_error:
  "\<not> syncInProg s \<Longrightarrow>
   SyncStocks GetByID SaveBatch clk (Inl err) s
     = ((Some \<lparr>LastSync = 0, TotalRecords = 0, NewRecords = 0, UpdatedRecords = 0,
                 Status = ''error''\<rparr>, Some err), s)"
  by (simp add: SyncStocks_def Let_def)

lemma save_batch_syncInProg [simp]:
  "syncInProg (save_batch SaveBatch line batch s) = syncInProg s"
  by (simp add: save_batch_def Let_def split: prod.splits option.splits)

lemma sync_record_syncInProg:
  "sync_record GetByID SaveBatch clk x (b, t, n, s) = (b', t', n', s') \<Longrightarrow>
   syncInProg s' = syncInProg s"
  by (auto simp: sync_record_def Let_def Now_def
           split: option.splits if_splits sum.splits prod.splits)

lemma sync_loop_syncInProg:
  "sync_loop GetByID SaveBatch clk xs (b, t, n, s) = (b', t', n', s') \<Longrightarrow>
   syncInProg s' = syncInProg s"
proof (induction xs arbitrary: b t n s)
  case Nil
  then show ?case by simp
next
  case (Cons x xs)
  obtain b1 t1 n1 s1
    where step: "sync_record GetByID SaveBatch clk x (b, t, n, s) = (b1, t1, n1, s1)"
    by (metis prod_cases4)
  with Cons.prems
  have "sync_loop GetByID SaveBatch clk xs (b1, t1, n1, s1) = (b', t', n', s')"
    by simp
  then have "syncInProg s' = syncInProg s1"
    by (rule Cons.IH)
  with sync_record_syncInProg[OF step] show ?case
    by simp
qed

lemma SyncStocks_during_run:
  assumes "sync_loop GetByID SaveBatch clk received_so_far ([], 0, 0, s\<lparr>syncInProg := True\<rparr>)
             = (b, t, n, s')"
  shows "SyncStocks GetByID' SaveBatch' clk' fetched s' = ((None, Some ErrSyncInProgress), s')"
proof -
  from sync_loop_syncInProg[OF assms] have "syncInProg s'"
    by simp
  then show ?thesis
    by (rule SyncStocks_in_progress)
qed

end
